theory Spec2Isabelle
  imports Main
begin

section \<open>JavaScript values\<close>

text \<open>
  The values the logging facade receives (\<open>unknown\<close> in the source).  Objects are
  maps from property names to values; only lookups are observed below, so the
  enumeration order of keys is not part of the model.  An \<open>Error\<close> instance carries
  its \<open>message\<close> and its \<open>stack\<close>, both non-enumerable.  The facade never
  computes with a number, it passes it on or prints it: a number is held by the text
  that \<open>String\<close> gives for it (\<open>JNum ''7''\<close> for 7, \<open>JNum ''1e+21''\<close> for
  \<open>1e21\<close>).  A string is a list of code units, of which the model has those below
  256.  Functions, symbols and bigints are left out.
\<close>

datatype jsval =
    JUndefined
  | JNull
  | JBool bool
  | JNum string
  | JStr string
  | JArray "jsval list"
  | JObject "string \<Rightarrow> jsval option"
  | JError string string

type_synonym props = "string \<Rightarrow> jsval option"

datatype jstype = TUndefined | TObject | TBoolean | TNumber | TString

fun typeof :: "jsval \<Rightarrow> jstype" where
  "typeof JUndefined = TUndefined"
| "typeof JNull = TObject"
| "typeof (JBool b) = TBoolean"
| "typeof (JNum n) = TNumber"
| "typeof (JStr s) = TString"
| "typeof (JArray xs) = TObject"
| "typeof (JObject ps) = TObject"
| "typeof (JError m st) = TObject"

fun instanceofError :: "jsval \<Rightarrow> bool" where
  "instanceofError (JError m st) = True"
| "instanceofError v = False"

text \<open>The \<open>message\<close> property of an \<open>Error\<close> instance.\<close>

fun messageOf :: "jsval \<Rightarrow> string" where
  "messageOf (JError m st) = m"
| "messageOf v = []"

text \<open>Decimal rendering of array indices.\<close>

fun showNat :: "nat \<Rightarrow> string" where
  "showNat n =
     (if n < 10 then [char_of (48 + n)]
      else showNat (n div 10) @ [char_of (48 + n mod 10)])"

declare showNat.simps [simp del]

definition indexKeys :: "nat \<Rightarrow> string list" where
  "indexKeys n = map showNat [0..<n]"

text \<open>
  The own enumerable properties of a value, as \<open>Object.assign\<close> and object spread
  read them from a source operand: the properties of a plain object, the indexed
  elements of an array or of a string, nothing for \<open>null\<close>, \<open>undefined\<close>, booleans,
  numbers and for an \<open>Error\<close> (whose \<open>message\<close> and \<open>stack\<close> are not enumerable).
\<close>

fun ownEnumerable :: "jsval \<Rightarrow> props" where
  "ownEnumerable (JObject ps) = ps"
| "ownEnumerable (JArray xs) = map_of (zip (indexKeys (length xs)) xs)"
| "ownEnumerable (JStr s) = map_of (zip (indexKeys (length s)) (map (\<lambda>c. JStr [c]) s))"
| "ownEnumerable v = Map.empty"

definition Object_assign :: "props \<Rightarrow> jsval \<Rightarrow> props" where
  "Object_assign target source = target ++ ownEnumerable source"

text \<open>\<open>String(v)\<close>, used by the facade on values whose \<open>typeof\<close> is not \<open>object\<close>.\<close>

fun joinComma :: "string list \<Rightarrow> string" where
  "joinComma [] = []"
| "joinComma [s] = s"
| "joinComma (s # t # ss) = s @ '','' @ joinComma (t # ss)"

fun String_js :: "jsval \<Rightarrow> string" where
  "String_js JUndefined = ''undefined''"
| "String_js JNull = ''null''"
| "String_js (JBool b) = (if b then ''true'' else ''false'')"
| "String_js (JNum n) = n"
| "String_js (JStr s) = s"
| "String_js (JArray xs) =
     joinComma (map (\<lambda>x. if x = JUndefined then [] else if x = JNull then [] else String_js x) xs)"
| "String_js (JObject ps) = ''[object Object]''"
| "String_js (JError m st) = (if m = [] then ''Error'' else ''Error: '' @ m)"

text \<open>radashi's \<open>last\<close>: the last element of an array, \<open>undefined\<close> when it is empty.\<close>

definition last_js :: "jsval list \<Rightarrow> jsval" where
  "last_js xs = (if xs = [] then JUndefined else last xs)"

text \<open>\<open>xs.slice(0, -1)\<close> is \<open>butlast xs\<close>; \<open>xs[i]\<close> out of range is \<open>undefined\<close>.\<close>

definition index_js :: "jsval list \<Rightarrow> nat \<Rightarrow> jsval" where
  "index_js xs i = (if i < length xs then xs ! i else JUndefined)"

section \<open>Module parameters\<close>

text \<open>
  \<open>Params\<close> of \<open>params.ts\<close>, as far as the logger classes read it.  A pino logger is
  an object of the external library; the model holds it by reference (\<open>ref\<close>).  The
  \<open>pinoHttp\<close> option is an options object, a destination stream, or the pair of both.
  The property \<open>logger\<close> of the options is optional: \<open>passedLogger\<close> is \<open>None\<close>
  when the options have no such property, \<open>Some None\<close> when they have it with the
  value \<open>undefined\<close> or \<open>null\<close>, and \<open>Some (Some l)\<close> when it holds the logger
  \<open>l\<close>.
\<close>

type_synonym ref = nat

record CustomAttributeKeys =
  err :: "string option"

record Options =
  customAttributeKeys :: "CustomAttributeKeys option"
  passedLogger :: "ref option option"
  stream :: bool

datatype PinoHttp =
    PinoHttpOptions Options
  | PinoHttpStream
  | PinoHttpArray Options

record Params =
  pinoHttp :: "PinoHttp option"
  renameContext :: "string option"
  useExisting :: bool
  assignResponse :: bool

text \<open>\<open>renameContext || 'context'\<close>: an absent or empty name falls back to the default.\<close>

definition contextNameOf :: "Params \<Rightarrow> string" where
  "contextNameOf params =
     (case renameContext params of
        None \<Rightarrow> ''context''
      | Some n \<Rightarrow> if n = [] then ''context'' else n)"

section \<open>Message Normalizer (class \<open>Logger\<close>)\<close>

datatype Level = Trace | Debug | Info | Warn | Error | Fatal

text \<open>
  \<open>isInterpolated\<close>: the number of matches of \<open>/%[sdjo]/g\<close> in a string message,
  compared with the index of the object parameter.  A match is two characters long
  and the scan resumes after it.
\<close>

fun numPlaceholders :: "string \<Rightarrow> nat" where
  "numPlaceholders (c # d # cs) =
     (if c = CHR ''%'' \<and> (d = CHR ''s'' \<or> d = CHR ''d'' \<or> d = CHR ''j'' \<or> d = CHR ''o'')
      then Suc (numPlaceholders cs)
      else numPlaceholders (d # cs))"
| "numPlaceholders cs = 0"

fun isInterpolated :: "jsval \<Rightarrow> int option \<Rightarrow> bool" where
  "isInterpolated (JStr message) (Some objIndex) = (objIndex < int (numPlaceholders message))"
| "isInterpolated (JStr message) None = (0 < numPlaceholders message)"
| "isInterpolated message objIndex = False"

text \<open>
  \<open>isWrongExceptionsHandlerContract\<close>.  The pattern \<open>/\n\s*at /\<close> is found when some
  newline is followed by any run of white space and then \<open>at \<close>; since \<open>a\<close> is not
  white space, only the longest run can be followed by it.  Among the code units
  below 256 the class \<open>\s\<close> has tab, line feed, vertical tab, form feed, carriage
  return, space and the no-break space U+00A0.
\<close>

definition isWhitespace :: "char \<Rightarrow> bool" where
  "isWhitespace c =
     (c = CHR '' '' \<or> c = CHR 0x09 \<or> c = CHR 0x0A \<or> c = CHR 0x0B \<or> c = CHR 0x0C \<or> c = CHR 0x0D \<or>
      c = CHR 0xA0)"

fun startsWith :: "string \<Rightarrow> string \<Rightarrow> bool" where
  "startsWith [] s = True"
| "startsWith (p # ps) [] = False"
| "startsWith (p # ps) (c # cs) = (p = c \<and> startsWith ps cs)"

fun stackPatternTest :: "string \<Rightarrow> bool" where
  "stackPatternTest [] = False"
| "stackPatternTest (c # cs) =
     (if c = CHR 0x0A \<and> startsWith ''at '' (dropWhile isWhitespace cs) then True
      else stackPatternTest cs)"

definition isWrongExceptionsHandlerContract :: "Level \<Rightarrow> jsval \<Rightarrow> jsval list \<Rightarrow> bool" where
  "isWrongExceptionsHandlerContract level message params =
     (level = Error \<and> typeof message = TString \<and> length params = 1 \<and>
      typeof (index_js params 0) = TString \<and>
      stackPatternTest (String_js (index_js params 0)))"

text \<open>
  Steps 1 and 2 of \<open>Logger.call\<close>, one definition for each local variable.  radashi's
  \<open>isObject\<close> is a function of an external library: it is the parameter \<open>isObject\<close>
  of every definition that depends on it.
\<close>

definition optionalParamsWithoutContext :: "jsval list \<Rightarrow> jsval list" where
  "optionalParamsWithoutContext optionalParams =
     (if last_js optionalParams = JUndefined then [] else butlast optionalParams)"

definition contextObject :: "string \<Rightarrow> jsval list \<Rightarrow> props" where
  "contextObject contextName optionalParams =
     (if last_js optionalParams = JUndefined then Map.empty
      else [contextName \<mapsto> last_js optionalParams])"

definition mergesLast :: "(jsval \<Rightarrow> bool) \<Rightarrow> jsval \<Rightarrow> jsval list \<Rightarrow> bool" where
  "mergesLast isObject message params =
     (isObject (last_js params) \<and>
      \<not> isInterpolated message (Some (int (length params) - 1)))"

definition interpolationValues :: "(jsval \<Rightarrow> bool) \<Rightarrow> jsval \<Rightarrow> jsval list \<Rightarrow> jsval list" where
  "interpolationValues isObject message params =
     (if mergesLast isObject message params then butlast params else params)"

definition mergingObject :: "(jsval \<Rightarrow> bool) \<Rightarrow> string \<Rightarrow> jsval \<Rightarrow> jsval list \<Rightarrow> props" where
  "mergingObject isObject contextName message optionalParams =
     (let params = optionalParamsWithoutContext optionalParams;
          ctx = contextObject contextName optionalParams
      in if mergesLast isObject message params then Object_assign ctx (last_js params)
         else ctx)"

text \<open>
  \<open>Logger.call\<close>: the result is the argument list handed to \<open>this.logger[level]\<close>.
\<close>

definition Logger_call :: "(jsval \<Rightarrow> bool) \<Rightarrow> string \<Rightarrow> Level \<Rightarrow> jsval \<Rightarrow> jsval list \<Rightarrow> jsval list" where
  "Logger_call isObject contextName level message optionalParams =
     (let params = optionalParamsWithoutContext optionalParams;
          merging = mergingObject isObject contextName message optionalParams;
          values = interpolationValues isObject message params
      in if instanceofError message then
           JObject (merging(''err'' \<mapsto> message)) #
           JStr (if messageOf message = [] then ''Error'' else messageOf message) # values
         else if isWrongExceptionsHandlerContract level message params then
           [JObject (merging(''err'' \<mapsto>
              JError (String_js message) (String_js (index_js params 0))))]
         else if typeof message = TObject then
           JObject (merging ++ ownEnumerable message) # JUndefined # values
         else
           JObject merging # JStr (String_js message) # values)"

text \<open>The six public methods and the level each one passes to \<open>call\<close>.\<close>

definition Logger_verbose :: "(jsval \<Rightarrow> bool) \<Rightarrow> string \<Rightarrow> jsval \<Rightarrow> jsval list \<Rightarrow> jsval list" where
  "Logger_verbose isObject contextName = Logger_call isObject contextName Trace"

definition Logger_debug :: "(jsval \<Rightarrow> bool) \<Rightarrow> string \<Rightarrow> jsval \<Rightarrow> jsval list \<Rightarrow> jsval list" where
  "Logger_debug isObject contextName = Logger_call isObject contextName Debug"

definition Logger_log :: "(jsval \<Rightarrow> bool) \<Rightarrow> string \<Rightarrow> jsval \<Rightarrow> jsval list \<Rightarrow> jsval list" where
  "Logger_log isObject contextName = Logger_call isObject contextName Info"

definition Logger_warn :: "(jsval \<Rightarrow> bool) \<Rightarrow> string \<Rightarrow> jsval \<Rightarrow> jsval list \<Rightarrow> jsval list" where
  "Logger_warn isObject contextName = Logger_call isObject contextName Warn"

definition Logger_error :: "(jsval \<Rightarrow> bool) \<Rightarrow> string \<Rightarrow> jsval \<Rightarrow> jsval list \<Rightarrow> jsval list" where
  "Logger_error isObject contextName = Logger_call isObject contextName Error"

definition Logger_fatal :: "(jsval \<Rightarrow> bool) \<Rightarrow> string \<Rightarrow> jsval \<Rightarrow> jsval list \<Rightarrow> jsval list" where
  "Logger_fatal isObject contextName = Logger_call isObject contextName Fatal"

text \<open>
  radashi is not among the sources.  By its documentation, its \<open>isObject\<close> accepts
  plain objects only: on the values of the model that is \<open>isPlainObject\<close>, which
  accepts an object literal and rejects \<open>null\<close>, arrays, \<open>Error\<close> instances and
  primitives.
\<close>

fun isPlainObject :: "jsval \<Rightarrow> bool" where
  "isPlainObject (JObject ps) = True"
| "isPlainObject v = False"

section \<open>Request store and process state\<close>

text \<open>
  \<open>Store\<close> holds the request's logger and, optionally, its response logger.  The
  process state has the pino logger objects (a heap from references to the bindings a
  logger carries), the module variable \<open>outOfContext\<close>, and the store that
  \<open>storage.getStore()\<close> returns at the point of the call (\<open>None\<close> outside every
  \<open>storage.run\<close>).
\<close>

record Store =
  logger :: ref
  responseLogger :: "ref option"

record world =
  bindings :: "ref \<Rightarrow> props"
  nextRef :: ref
  outOfContext :: "ref option"
  getStore :: "Store option"

text \<open>
  Modelled from the spec: pino itself is not part of the sources.  \<open>pino(...)\<close>
  makes a new root handle; \<open>child(fields)\<close> derives a new handle with the extra
  fields bound on top of its parent's; \<open>setBindings(fields)\<close> binds the fields on the
  handle itself.
\<close>

definition pino :: "world \<Rightarrow> ref \<times> world" where
  "pino w = (nextRef w, w\<lparr>bindings := (bindings w)(nextRef w := Map.empty), nextRef := Suc (nextRef w)\<rparr>)"

definition child :: "ref \<Rightarrow> props \<Rightarrow> world \<Rightarrow> ref \<times> world" where
  "child parent fs w =
     (nextRef w,
      w\<lparr>bindings := (bindings w)(nextRef w := bindings w parent ++ fs),
        nextRef := Suc (nextRef w)\<rparr>)"

definition setBindings :: "ref \<Rightarrow> props \<Rightarrow> world \<Rightarrow> world" where
  "setBindings r fs w = w\<lparr>bindings := (bindings w)(r := bindings w r ++ fs)\<rparr>"

section \<open>Context-Resolving Facade (class \<open>PinoLogger\<close>)\<close>

record PinoLogger =
  context' :: string
  contextName :: string
  errorKey :: string

text \<open>The error field name the constructor reads from \<open>pinoHttp.customAttributeKeys\<close>.\<close>

definition errorKeyOf :: "Params \<Rightarrow> string" where
  "errorKeyOf params =
     (case pinoHttp params of
        Some (PinoHttpOptions opts) \<Rightarrow>
          (case customAttributeKeys opts of
             Some keys \<Rightarrow> (case err keys of Some k \<Rightarrow> k | None \<Rightarrow> ''err'')
           | None \<Rightarrow> ''err'')
      | _ \<Rightarrow> ''err'')"

text \<open>
  The constructor: the fallback logger is made by the first instance only.
  \<open>isPassedLogger\<close> tests that the options have the property \<open>logger\<close>, and
  the value of the property is then assigned as it is; every other shape of
  \<open>pinoHttp\<close> goes to \<open>pino\<close>, with or without the stream as a second argument.
\<close>

definition initOutOfContext :: "Params \<Rightarrow> world \<Rightarrow> world" where
  "initOutOfContext params w =
     (if outOfContext w \<noteq> None then w
      else
        (case pinoHttp params of
           Some (PinoHttpArray opts) \<Rightarrow> (let (r, w') = pino w in w'\<lparr>outOfContext := Some r\<rparr>)
         | Some (PinoHttpOptions opts) \<Rightarrow>
             (case passedLogger opts of
                Some l \<Rightarrow> w\<lparr>outOfContext := l\<rparr>
              | None \<Rightarrow>
                  if stream opts then (let (r, w') = pino w in w'\<lparr>outOfContext := Some r\<rparr>)
                  else (let (r, w') = pino w in w'\<lparr>outOfContext := Some r\<rparr>))
         | _ \<Rightarrow> (let (r, w') = pino w in w'\<lparr>outOfContext := Some r\<rparr>)))"

definition PinoLogger_new :: "Params \<Rightarrow> world \<Rightarrow> PinoLogger \<times> world" where
  "PinoLogger_new params w =
     (\<lparr>context' = [], contextName = contextNameOf params, errorKey = errorKeyOf params\<rparr>,
      initOutOfContext params w)"

definition resetOutOfContextForTests :: "world \<Rightarrow> world" where
  "resetOutOfContextForTests w = w\<lparr>outOfContext := None\<rparr>"

text \<open>
  The getter \<open>logger\<close>: the store's logger when a store is active, else
  \<open>outOfContext\<close>, which is \<open>None\<close> (\<open>undefined\<close>) before any construction.
\<close>

definition PinoLogger_logger :: "world \<Rightarrow> ref option" where
  "PinoLogger_logger w =
     (case getStore w of Some store \<Rightarrow> Some (logger store) | None \<Rightarrow> outOfContext w)"

definition setContext :: "string \<Rightarrow> PinoLogger \<Rightarrow> PinoLogger" where
  "setContext v this = this\<lparr>context' := v\<rparr>"

text \<open>\<open>assign\<close>: the thrown error is the left summand; the state is returned in both cases.\<close>

definition assign :: "props \<Rightarrow> world \<Rightarrow> (jsval + unit) \<times> world" where
  "assign fs w =
     (case getStore w of
        None \<Rightarrow>
          (Inl (JError ''PinoLogger: unable to assign extra fields out of request scope'' []), w)
      | Some store \<Rightarrow>
          (let (c, w1) = child (logger store) fs w;
               w2 = w1\<lparr>getStore := Some (store\<lparr>logger := c\<rparr>)\<rparr>
           in (Inr (),
               (case responseLogger store of
                  None \<Rightarrow> w2
                | Some r \<Rightarrow> setBindings r fs w2))))"

text \<open>\<open>isFirstArgObject\<close> and the argument list \<open>PinoLogger.call\<close> builds.\<close>

definition isFirstArgObject :: "jsval list \<Rightarrow> bool" where
  "isFirstArgObject args = (typeof (index_js args 0) = TObject)"

definition labelledArgs :: "PinoLogger \<Rightarrow> jsval list \<Rightarrow> jsval list" where
  "labelledArgs this args =
     (if context' this \<noteq> [] then
        (if isFirstArgObject args then
           (let firstArg = index_js args 0 in
            if instanceofError firstArg then
              JObject (Object_assign [contextName this \<mapsto> JStr (context' this)]
                         (JObject [errorKey this \<mapsto> firstArg])) # drop 1 args
            else
              JObject (Object_assign [contextName this \<mapsto> JStr (context' this)] firstArg) #
              drop 1 args)
         else JObject [contextName this \<mapsto> JStr (context' this)] # args)
      else args)"

text \<open>
  One call of a pino logger method: the handle, the level and the arguments.
  \<open>PinoLogger.call\<close> fails with a \<open>TypeError\<close> when the getter yields \<open>undefined\<close>.
\<close>

record emission =
  handle :: ref
  level :: Level
  arguments :: "jsval list"

datatype TypeError = TypeError

definition PinoLogger_call :: "PinoLogger \<Rightarrow> Level \<Rightarrow> jsval list \<Rightarrow> world \<Rightarrow> TypeError + emission" where
  "PinoLogger_call this method args w =
     (case PinoLogger_logger w of
        None \<Rightarrow> Inl TypeError
      | Some l \<Rightarrow> Inr \<lparr>handle = l, level = method, arguments = labelledArgs this args\<rparr>)"

section \<open>Named-Logger Registry\<close>

text \<open>
  \<open>decoratedLoggers\<close> is a \<open>Set<string>\<close>: its elements in insertion order, each
  once.  \<open>Set.prototype.add\<close> leaves the set as it is when the element is there.
\<close>

definition Set_add :: "string \<Rightarrow> string list \<Rightarrow> string list" where
  "Set_add x s = (if x \<in> set s then s else s @ [x])"

definition getLoggerToken :: "string \<Rightarrow> string" where
  "getLoggerToken ctx = ''PinoLogger:'' @ ctx"

text \<open>\<open>InjectPinoLogger\<close>: the new registry and the token the decorator injects.\<close>

definition InjectPinoLogger :: "string \<Rightarrow> string list \<Rightarrow> string \<times> string list" where
  "InjectPinoLogger ctx decoratedLoggers = (getLoggerToken ctx, Set_add ctx decoratedLoggers)"

record Provider =
  provide :: string
  useFactory :: "PinoLogger \<Rightarrow> PinoLogger"
  inject :: "string list"

definition createDecoratedLoggerProvider :: "string \<Rightarrow> Provider" where
  "createDecoratedLoggerProvider ctx =
     \<lparr>provide = getLoggerToken ctx,
      useFactory = (\<lambda>l. setContext ctx l),
      inject = [''PinoLogger'']\<rparr>"

definition createProvidersForDecorated :: "string list \<Rightarrow> Provider list" where
  "createProvidersForDecorated decoratedLoggers = map createDecoratedLoggerProvider decoratedLoggers"

text \<open>Registering the labels of a list, one after the other, from a given registry.\<close>

fun registerAll :: "string list \<Rightarrow> string list \<Rightarrow> string list" where
  "registerAll [] s = s"
| "registerAll (c # cs) s = registerAll cs (snd (InjectPinoLogger c s))"

section \<open>The two classes together\<close>

text \<open>
  \<open>Logger\<close> hands the normalized arguments to the method of its \<open>PinoLogger\<close> for
  the same level, which is \<open>PinoLogger.call\<close>.
\<close>

definition Logger_emit ::
  "(jsval \<Rightarrow> bool) \<Rightarrow> PinoLogger \<Rightarrow> string \<Rightarrow> Level \<Rightarrow> jsval \<Rightarrow> jsval list \<Rightarrow> world
     \<Rightarrow> TypeError + emission" where
  "Logger_emit isObject this name method message optionalParams w =
     PinoLogger_call this method (Logger_call isObject name method message optionalParams) w"

text \<open>The properties of the leading object of an argument list.\<close>

definition emittedFields :: "jsval list \<Rightarrow> props" where
  "emittedFields args = ownEnumerable (index_js args 0)"

text \<open>The state when the modules are loaded: no logger, no fallback, no active store.\<close>

definition initialWorld :: world where
  "initialWorld =
     \<lparr>bindings = (\<lambda>r. Map.empty), nextRef = 0, outOfContext = None, getStore = None\<rparr>"

section \<open>Auxiliary facts\<close>

lemma last_js_simps [simp]:
  "last_js [] = JUndefined" "xs \<noteq> [] \<Longrightarrow> last_js xs = last xs"
  by (simp_all add: last_js_def)


lemma typeof_string: "typeof v = TString \<longleftrightarrow> (\<exists>s. v = JStr s)"
  by (cases v) simp_all

lemma startsWith_iff: "startsWith p s \<longleftrightarrow> (\<exists>r. s = p @ r)"
  by (induction p s rule: startsWith.induct) auto

lemma not_isWhitespace_a: "\<not> isWhitespace CHR ''a''"
  by (simp add: isWhitespace_def)

text \<open>
  The test finds the pattern exactly in the strings that have a newline, then white
  space only (possibly none), then \<open>at \<close>.
\<close>

lemma stackPatternTest_iff:
  "stackPatternTest s \<longleftrightarrow>
     (\<exists>pre ws rest. s = pre @ [CHR 0x0A] @ ws @ ''at '' @ rest \<and> list_all isWhitespace ws)"
proof
  assume "stackPatternTest s"
  then show "\<exists>pre ws rest. s = pre @ [CHR 0x0A] @ ws @ ''at '' @ rest \<and> list_all isWhitespace ws"
  proof (induction s)
    case Nil
    then show ?case by simp
  next
    case (Cons c cs)
    show ?case
    proof (cases "c = CHR 0x0A \<and> startsWith ''at '' (dropWhile isWhitespace cs)")
      case True
      then obtain r where r: "dropWhile isWhitespace cs = ''at '' @ r"
        by (auto simp: startsWith_iff)
      have "cs = takeWhile isWhitespace cs @ dropWhile isWhitespace cs" by simp
      with r have "c # cs = [] @ [CHR 0x0A] @ takeWhile isWhitespace cs @ ''at '' @ r"
        using True by simp
      moreover have "list_all isWhitespace (takeWhile isWhitespace cs)"
        by (simp add: list_all_iff) (meson set_takeWhileD)
      ultimately show ?thesis by blast
    next
      case False
      with Cons.prems have "stackPatternTest cs" by (simp split: if_splits)
      from Cons.IH [OF this] obtain pre ws rest
        where "cs = pre @ [CHR 0x0A] @ ws @ ''at '' @ rest" "list_all isWhitespace ws" by blast
      then have "c # cs = (c # pre) @ [CHR 0x0A] @ ws @ ''at '' @ rest" by simp
      with \<open>list_all isWhitespace ws\<close> show ?thesis by blast
    qed
  qed
next
  assume "\<exists>pre ws rest. s = pre @ [CHR 0x0A] @ ws @ ''at '' @ rest \<and> list_all isWhitespace ws"
  then obtain pre ws rest
    where s: "s = pre @ [CHR 0x0A] @ ws @ ''at '' @ rest" and ws: "list_all isWhitespace ws"
    by blast
  have dw: "dropWhile isWhitespace (ws @ ''at '' @ rest) = ''at '' @ rest"
    using ws not_isWhitespace_a by (induction ws) simp_all
  have "stackPatternTest (pre @ [CHR 0x0A] @ ws @ ''at '' @ rest)"
  proof (induction pre)
    case Nil
    show ?case using dw by simp
  next
    case (Cons c pre)
    then show ?case by simp
  qed
  with s show "stackPatternTest s" by simp
qed

lemma contract_not_Error:
  "isWrongExceptionsHandlerContract lvl message params \<Longrightarrow> \<not> instanceofError message"
  by (cases message) (simp_all add: isWrongExceptionsHandlerContract_def)

lemma contract_iff:
  "isWrongExceptionsHandlerContract lvl message params \<longleftrightarrow>
     lvl = Error \<and> (\<exists>s st. message = JStr s \<and> params = [JStr st] \<and> stackPatternTest st)"
  by (cases params; cases "tl params")
     (auto simp: isWrongExceptionsHandlerContract_def typeof_string index_js_def)

text \<open>Only the exceptions-handler branch passes a single argument.\<close>

lemma length_Logger_call:
  "length (Logger_call isObject cn lvl message ops) = 1 \<longleftrightarrow>
     isWrongExceptionsHandlerContract lvl message (optionalParamsWithoutContext ops)"
  using contract_not_Error [of lvl message "optionalParamsWithoutContext ops"]
  by (auto simp add: Logger_call_def Let_def)

text \<open>Outside that branch the interpolation values follow the fields and the message.\<close>

lemma values_of_Logger_call:
  "\<not> isWrongExceptionsHandlerContract lvl message (optionalParamsWithoutContext ops) \<Longrightarrow>
   drop 2 (Logger_call isObject cn lvl message ops) =
     interpolationValues isObject message (optionalParamsWithoutContext ops)"
  by (simp add: Logger_call_def Let_def)

text \<open>
  The constructor leaves a fallback in place unless the options pass a \<open>logger\<close>
  property without a logger in it.
\<close>

lemma outOfContext_init:
  "(\<forall>opts. pinoHttp params = Some (PinoHttpOptions opts) \<longrightarrow> passedLogger opts \<noteq> Some None) \<Longrightarrow>
   outOfContext (initOutOfContext params w) \<noteq> None"
  by (auto simp: initOutOfContext_def pino_def Let_def split: option.splits PinoHttp.splits)

text \<open>With a fallback in place and no store active, every call goes to the fallback.\<close>

lemma fallback_when_initialized:
  assumes "getStore w = None" and "outOfContext w = Some fallback"
  shows "PinoLogger_logger w = Some fallback \<and>
         PinoLogger_call this lvl args w =
           Inr \<lparr>handle = fallback, level = lvl, arguments = labelledArgs this args\<rparr> \<and>
         Logger_emit isObject this cn lvl message ops w =
           Inr \<lparr>handle = fallback, level = lvl,
                arguments = labelledArgs this (Logger_call isObject cn lvl message ops)\<rparr>"
  using assms
  by (simp add: PinoLogger_call_def PinoLogger_logger_def Logger_emit_def)

lemma getStore_init: "getStore (initOutOfContext params w) = getStore w"
  by (auto simp: initOutOfContext_def pino_def Let_def split: option.splits PinoHttp.splits)

lemma set_registerAll: "set (registerAll cs s) = set cs \<union> set s"
  by (induction cs arbitrary: s) (auto simp: InjectPinoLogger_def Set_add_def)

lemma distinct_registerAll: "distinct s \<Longrightarrow> distinct (registerAll cs s)"
  by (induction cs arbitrary: s) (auto simp: InjectPinoLogger_def Set_add_def)

lemma count_list_distinct: "distinct xs \<Longrightarrow> x \<in> set xs \<Longrightarrow> count_list xs x = 1"
  by (induction xs) auto

lemma providers_count:
  "length (filter (\<lambda>p. provide p = getLoggerToken L) (createProvidersForDecorated s)) =
     count_list s L"
  by (induction s)
     (auto simp: createProvidersForDecorated_def createDecoratedLoggerProvider_def
        getLoggerToken_def)

section \<open>Message Normalizer: merge or interpolate\<close>




section \<open>Message Normalizer: the trailing context\<close>

text \<open>
  Claim C2, as the code has it.  Let \<open>optionalParams\<close> be non-empty with a last
  element that is not \<open>undefined\<close>.  That element is removed from the working
  parameter list: the test for the exceptions-handler contract and the interpolation
  values are those of the list without it.  It is recorded under the context field
  name, which is \<open>context\<close> when no other name is configured, and the record passed
  on has it there unless a later step writes the same name: the exception, or the
  one made for the exceptions-handler contract, when the name is \<open>err\<close>; a property
  of an object message; a property of the trailing object that is merged.
\<close>

theorem context_extraction:
  assumes "ops \<noteq> []" and "last ops \<noteq> JUndefined"
  shows "optionalParamsWithoutContext ops = butlast ops \<and>
         (length (Logger_call isObject cn lvl message ops) = 1 \<longleftrightarrow>
            isWrongExceptionsHandlerContract lvl message (butlast ops)) \<and>
         (\<not> isWrongExceptionsHandlerContract lvl message (butlast ops) \<longrightarrow>
            drop 2 (Logger_call isObject cn lvl message ops) =
              interpolationValues isObject message (butlast ops)) \<and>
         emittedFields (Logger_call isObject cn lvl message ops) cn =
           (if cn = ''err'' \<and> instanceofError message then Some message
            else if cn = ''err'' \<and> isWrongExceptionsHandlerContract lvl message (butlast ops)
            then Some (JError (String_js message) (String_js (index_js (butlast ops) 0)))
            else if typeof message = TObject \<and> ownEnumerable message cn \<noteq> None
            then ownEnumerable message cn
            else if mergesLast isObject message (butlast ops) \<and>
                    ownEnumerable (last_js (butlast ops)) cn \<noteq> None
            then ownEnumerable (last_js (butlast ops)) cn
            else Some (last ops)) \<and>
         contextNameOf (params\<lparr>renameContext := None\<rparr>) = ''context''"
proof -
  have p: "optionalParamsWithoutContext ops = butlast ops"
    using assms by (simp add: optionalParamsWithoutContext_def)
  have c: "contextObject cn ops = [cn \<mapsto> last ops]"
    using assms by (simp add: contextObject_def)
  have own: "instanceofError message \<Longrightarrow> ownEnumerable message = Map.empty"
    by (cases message) simp_all
  have w: "isWrongExceptionsHandlerContract lvl message (butlast ops) \<Longrightarrow>
      typeof message = TString \<and> \<not> instanceofError message"
    using contract_not_Error [of lvl message "butlast ops"]
    by (simp add: isWrongExceptionsHandlerContract_def)
  have l: "length (Logger_call isObject cn lvl message ops) = 1 \<longleftrightarrow>
      isWrongExceptionsHandlerContract lvl message (butlast ops)"
    using length_Logger_call [of isObject cn lvl message ops] by (simp add: p)
  have v: "\<not> isWrongExceptionsHandlerContract lvl message (butlast ops) \<Longrightarrow>
      drop 2 (Logger_call isObject cn lvl message ops) =
        interpolationValues isObject message (butlast ops)"
    using values_of_Logger_call [of lvl message ops isObject cn] by (simp add: p)
  have f: "emittedFields (Logger_call isObject cn lvl message ops) cn =
           (if cn = ''err'' \<and> instanceofError message then Some message
            else if cn = ''err'' \<and> isWrongExceptionsHandlerContract lvl message (butlast ops)
            then Some (JError (String_js message) (String_js (index_js (butlast ops) 0)))
            else if typeof message = TObject \<and> ownEnumerable message cn \<noteq> None
            then ownEnumerable message cn
            else if mergesLast isObject message (butlast ops) \<and>
                    ownEnumerable (last_js (butlast ops)) cn \<noteq> None
            then ownEnumerable (last_js (butlast ops)) cn
            else Some (last ops))"
    using w own
    by (auto simp add: Logger_call_def Let_def mergingObject_def p c emittedFields_def
        index_js_def Object_assign_def map_add_def split: option.splits)
  from p l v f show ?thesis
    by (simp add: contextNameOf_def)
qed

theorem context_extraction_witness:
  "[JObject [''requestId'' \<mapsto> JNum ''7''], JStr ''req-42''] \<noteq> [] \<and>
   last [JObject [''requestId'' \<mapsto> JNum ''7''], JStr ''req-42''] \<noteq> JUndefined \<and>
   optionalParamsWithoutContext [JObject [''requestId'' \<mapsto> JNum ''7''], JStr ''req-42''] =
     [JObject [''requestId'' \<mapsto> JNum ''7'']] \<and>
   emittedFields (Logger_call isPlainObject ''context'' Info (JStr ''login attempt'')
     [JObject [''requestId'' \<mapsto> JNum ''7''], JStr ''req-42'']) ''context'' =
     Some (JStr ''req-42'') \<and>
   drop 2 (Logger_call isPlainObject ''context'' Info (JStr ''login attempt'')
     [JObject [''requestId'' \<mapsto> JNum ''7''], JStr ''req-42'']) = []"
proof -
  have h1: "[JObject [''requestId'' \<mapsto> JNum ''7''], JStr ''req-42''] \<noteq> []" by simp
  have h2: "last [JObject [''requestId'' \<mapsto> JNum ''7''], JStr ''req-42''] \<noteq> JUndefined"
    by simp
  from context_extraction [where isObject = isPlainObject and cn = "''context''" and lvl = Info
      and message = "JStr ''login attempt''", OF h1 h2]
  show ?thesis
    by (simp add: mergesLast_def interpolationValues_def isWrongExceptionsHandlerContract_def)
qed

text \<open>
  The claim as it is written fails in four ways.  An \<open>undefined\<close> last element is
  not removed alone and is not recorded: the whole list is dropped and the fields
  stay empty.  And a context that was extracted is not in the record under the
  context field name when an object message has a property of that name, when the
  merged trailing object has one, or when the name is \<open>err\<close> and the message is an
  exception.
\<close>

theorem context_extraction_undefined_counterexample:
  "[JStr ''a'', JUndefined] \<noteq> [] \<and>
   Logger_call isPlainObject ''context'' Info (JStr ''m'') [JStr ''a'', JUndefined] =
     [JObject Map.empty, JStr ''m''] \<and>
   emittedFields (Logger_call isPlainObject ''context'' Info
     (JObject [''context'' \<mapsto> JStr ''mine'']) [JStr ''x'', JStr ''ctx'']) ''context'' =
     Some (JStr ''mine'') \<and>
   emittedFields (Logger_call isPlainObject ''context'' Info (JStr ''m'')
     [JObject [''context'' \<mapsto> JStr ''mine''], JStr ''ctx'']) ''context'' =
     Some (JStr ''mine'') \<and>
   contextNameOf \<lparr>pinoHttp = None, renameContext = Some ''err'', useExisting = False,
     assignResponse = False\<rparr> = ''err'' \<and>
   emittedFields (Logger_call isPlainObject ''err'' Info (JError ''boom'' ''trace'')
     [JStr ''ctx'']) ''err'' = Some (JError ''boom'' ''trace'')"
  by (simp add: optionalParamsWithoutContext_def contextObject_def Logger_call_def
      mergingObject_def interpolationValues_def mergesLast_def emittedFields_def index_js_def
      isWrongExceptionsHandlerContract_def Object_assign_def contextNameOf_def)

section \<open>Message Normalizer: the guard chain\<close>

text \<open>
  Claim C3, as the code has it.  When the message is an \<open>Error\<close> instance, the
  arguments passed on are the merged fields with the exception under the fixed name
  \<open>err\<close>, the exception's own message, or \<open>Error\<close> when that is empty, and the
  interpolation values.  The error field holds exactly the exception, whatever was
  merged before.  An exception as the only argument gives the fields
  \<open>{err: exception}\<close>, the message and no interpolation value.  The class \<open>Logger\<close>
  does not read the error field name that \<open>PinoLogger\<close> takes from the parameters.
\<close>

theorem error_message_branch:
  assumes "instanceofError message"
  shows "Logger_call isObject cn lvl message ops =
           JObject ((mergingObject isObject cn message ops)(''err'' \<mapsto> message)) #
           JStr (if messageOf message = [] then ''Error'' else messageOf message) #
           interpolationValues isObject message (optionalParamsWithoutContext ops) \<and>
         emittedFields (Logger_call isObject cn lvl message ops) ''err'' = Some message \<and>
         Logger_call isObject cn lvl message [] =
           [JObject [''err'' \<mapsto> message],
            JStr (if messageOf message = [] then ''Error'' else messageOf message)]"
  using assms
  by (cases message)
     (simp_all add: Logger_call_def Let_def emittedFields_def index_js_def mergingObject_def
        optionalParamsWithoutContext_def contextObject_def interpolationValues_def
        mergesLast_def Object_assign_def)

theorem error_message_branch_witness:
  "instanceofError (JError [] ''trace'') \<and>
   Logger_call isPlainObject ''context'' Warn (JError [] ''trace'') [] =
     [JObject [''err'' \<mapsto> JError [] ''trace''], JStr ''Error'']"
proof -
  have h: "instanceofError (JError [] ''trace'')" by simp
  from h error_message_branch
    [where isObject = isPlainObject and cn = "''context''" and lvl = Warn and ops = "[]",
     OF h, THEN conjunct2, THEN conjunct2]
  show ?thesis by simp
qed

text \<open>
  With \<open>customAttributeKeys.err\<close> set to \<open>error\<close>, the facade's error field name is
  \<open>error\<close>, and the record of an exception still has it under \<open>err\<close>, also after
  the facade has passed it to the pino logger.
\<close>

theorem error_field_name_counterexample:
  "errorKey (fst (PinoLogger_new
     \<lparr>pinoHttp = Some (PinoHttpOptions
        \<lparr>customAttributeKeys = Some \<lparr>err = Some ''error''\<rparr>, passedLogger = None,
         stream = False\<rparr>),
      renameContext = None, useExisting = False, assignResponse = False\<rparr> initialWorld))
     = ''error'' \<and>
   instanceofError (JError ''boom'' ''trace'') \<and>
   emittedFields (Logger_call isPlainObject ''context'' Error (JError ''boom'' ''trace'') [])
     ''error'' = None \<and>
   Logger_emit isPlainObject
     (fst (PinoLogger_new
        \<lparr>pinoHttp = Some (PinoHttpOptions
           \<lparr>customAttributeKeys = Some \<lparr>err = Some ''error''\<rparr>, passedLogger = None,
            stream = False\<rparr>),
         renameContext = None, useExisting = False, assignResponse = False\<rparr> initialWorld))
     ''context'' Error (JError ''boom'' ''trace'') []
     (snd (PinoLogger_new
        \<lparr>pinoHttp = Some (PinoHttpOptions
           \<lparr>customAttributeKeys = Some \<lparr>err = Some ''error''\<rparr>, passedLogger = None,
            stream = False\<rparr>),
         renameContext = None, useExisting = False, assignResponse = False\<rparr> initialWorld))
     = Inr \<lparr>handle = 0, level = Error,
            arguments = [JObject [''err'' \<mapsto> JError ''boom'' ''trace''], JStr ''boom'']\<rparr>"
  by (simp add: PinoLogger_new_def errorKeyOf_def contextNameOf_def initialWorld_def
      initOutOfContext_def pino_def Logger_emit_def PinoLogger_call_def PinoLogger_logger_def
      labelledArgs_def Logger_call_def mergingObject_def optionalParamsWithoutContext_def
      contextObject_def interpolationValues_def mergesLast_def emittedFields_def index_js_def)

text \<open>
  Claim C4, as the code has it.  For the method \<open>error\<close>, with a string message and
  exactly one parameter left after context extraction, itself a string in which the
  pattern is found, the single argument passed on is the merged fields with, under
  the fixed name \<open>err\<close>, an exception whose message is the original string and whose
  stack is the parameter; no message argument follows.  A call passes exactly one
  argument only under these conditions.  The pattern is found exactly in the strings
  with a newline, then a run of white space that may be empty, then \<open>at \<close>.
\<close>

theorem exceptions_handler_contract:
  "(optionalParamsWithoutContext ops = [JStr st] \<and> stackPatternTest st \<longrightarrow>
      Logger_error isObject cn (JStr s) ops =
        [JObject ((mergingObject isObject cn (JStr s) ops)(''err'' \<mapsto> JError s st))] \<and>
      emittedFields (Logger_error isObject cn (JStr s) ops) ''err'' = Some (JError s st)) \<and>
   (length (Logger_call isObject cn lvl message ops) = 1 \<longleftrightarrow>
      lvl = Error \<and> typeof message = TString \<and>
      (\<exists>st. optionalParamsWithoutContext ops = [JStr st] \<and> stackPatternTest st)) \<and>
   (stackPatternTest st \<longleftrightarrow>
      (\<exists>pre ws rest. st = pre @ [CHR 0x0A] @ ws @ ''at '' @ rest \<and> list_all isWhitespace ws))"
  using length_Logger_call [of isObject cn lvl message ops] stackPatternTest_iff [of st]
  by (auto simp: Logger_error_def Logger_call_def Let_def contract_iff typeof_string index_js_def
      emittedFields_def)

theorem exceptions_handler_contract_witness:
  "optionalParamsWithoutContext
     [JStr ''Error: boom\<newline>    at foo (file.js:1:1)'', JStr ''ExceptionsHandler'']
     = [JStr ''Error: boom\<newline>    at foo (file.js:1:1)''] \<and>
   stackPatternTest ''Error: boom\<newline>    at foo (file.js:1:1)'' \<and>
   Logger_error isPlainObject ''context'' (JStr ''boom'')
     [JStr ''Error: boom\<newline>    at foo (file.js:1:1)'', JStr ''ExceptionsHandler'']
     = [JObject [''context'' \<mapsto> JStr ''ExceptionsHandler'',
                 ''err'' \<mapsto> JError ''boom'' ''Error: boom\<newline>    at foo (file.js:1:1)'']]"
proof -
  have h1: "optionalParamsWithoutContext
     [JStr ''Error: boom\<newline>    at foo (file.js:1:1)'', JStr ''ExceptionsHandler'']
     = [JStr ''Error: boom\<newline>    at foo (file.js:1:1)'']"
    by (simp add: optionalParamsWithoutContext_def)
  have h2: "stackPatternTest ''Error: boom\<newline>    at foo (file.js:1:1)''"
    by (simp add: isWhitespace_def)
  have m: "mergingObject isPlainObject ''context'' (JStr ''boom'')
     [JStr ''Error: boom\<newline>    at foo (file.js:1:1)'', JStr ''ExceptionsHandler'']
     = [''context'' \<mapsto> JStr ''ExceptionsHandler'']"
    by (simp add: mergingObject_def optionalParamsWithoutContext_def mergesLast_def
        contextObject_def Let_def)
  have "optionalParamsWithoutContext
          [JStr ''Error: boom\<newline>    at foo (file.js:1:1)'', JStr ''ExceptionsHandler'']
          = [JStr ''Error: boom\<newline>    at foo (file.js:1:1)''] \<and>
        stackPatternTest ''Error: boom\<newline>    at foo (file.js:1:1)'' \<longrightarrow>
        Logger_error isPlainObject ''context'' (JStr ''boom'')
          [JStr ''Error: boom\<newline>    at foo (file.js:1:1)'', JStr ''ExceptionsHandler'']
          = [JObject ((mergingObject isPlainObject ''context'' (JStr ''boom'')
               [JStr ''Error: boom\<newline>    at foo (file.js:1:1)'', JStr ''ExceptionsHandler''])
               (''err'' \<mapsto> JError ''boom'' ''Error: boom\<newline>    at foo (file.js:1:1)''))] \<and>
        emittedFields (Logger_error isPlainObject ''context'' (JStr ''boom'')
          [JStr ''Error: boom\<newline>    at foo (file.js:1:1)'', JStr ''ExceptionsHandler''])
          ''err'' = Some (JError ''boom'' ''Error: boom\<newline>    at foo (file.js:1:1)'')"
    by (rule exceptions_handler_contract [THEN conjunct1])
  with h1 h2 have "Logger_error isPlainObject ''context'' (JStr ''boom'')
          [JStr ''Error: boom\<newline>    at foo (file.js:1:1)'', JStr ''ExceptionsHandler'']
          = [JObject ((mergingObject isPlainObject ''context'' (JStr ''boom'')
               [JStr ''Error: boom\<newline>    at foo (file.js:1:1)'', JStr ''ExceptionsHandler''])
               (''err'' \<mapsto> JError ''boom'' ''Error: boom\<newline>    at foo (file.js:1:1)''))]"
    by blast
  then show ?thesis
    unfolding m using h1 h2 by blast
qed

text \<open>
  The claim as it is written fails in two ways.  With \<open>customAttributeKeys.err\<close> set
  to \<open>error\<close>, the error field name of the facade is \<open>error\<close>, and the record has
  the exception under \<open>err\<close> and nothing under \<open>error\<close>.  And a stack in which
  \<open>at \<close> follows the newline at once, with no white space between them, takes the
  branch as well.
\<close>

theorem exceptions_handler_contract_counterexample:
  "errorKey (fst (PinoLogger_new
     \<lparr>pinoHttp = Some (PinoHttpOptions
        \<lparr>customAttributeKeys = Some \<lparr>err = Some ''error''\<rparr>, passedLogger = None,
         stream = False\<rparr>),
      renameContext = None, useExisting = False, assignResponse = False\<rparr> initialWorld))
     = ''error'' \<and>
   emittedFields (Logger_error isPlainObject ''context'' (JStr ''boom'')
     [JStr ''Error: boom\<newline>    at foo (file.js:1:1)'', JStr ''ExceptionsHandler''])
     ''error'' = None \<and>
   Logger_error isPlainObject ''context'' (JStr ''boom'')
     [JStr ''Error: boom\<newline>at foo (file.js:1:1)'', JStr ''ExceptionsHandler''] =
     [JObject [''context'' \<mapsto> JStr ''ExceptionsHandler'',
               ''err'' \<mapsto> JError ''boom'' ''Error: boom\<newline>at foo (file.js:1:1)'']]"
  by (simp add: PinoLogger_new_def errorKeyOf_def Logger_error_def Logger_call_def
      mergingObject_def optionalParamsWithoutContext_def contextObject_def mergesLast_def
      isWrongExceptionsHandlerContract_def index_js_def emittedFields_def isWhitespace_def)

text \<open>
  Claim C10.  When \<open>optionalParams\<close> is non-empty and its last element is
  \<open>undefined\<close>, no context is recorded and the working parameter list is empty:
  nothing is merged, there is no interpolation value, and the call passes on what
  it passes on without any optional parameter.
\<close>

theorem undefined_context_discards_params:
  assumes "ops \<noteq> []" and "last ops = JUndefined"
  shows "optionalParamsWithoutContext ops = [] \<and>
         contextObject cn ops = Map.empty \<and>
         mergingObject isObject cn message ops = Map.empty \<and>
         interpolationValues isObject message (optionalParamsWithoutContext ops) = [] \<and>
         Logger_call isObject cn lvl message ops = Logger_call isObject cn lvl message [] \<and>
         drop 2 (Logger_call isObject cn lvl message ops) = []"
  using assms
  by (simp add: optionalParamsWithoutContext_def contextObject_def mergingObject_def
      interpolationValues_def Logger_call_def Let_def Object_assign_def mergesLast_def
      isWrongExceptionsHandlerContract_def)

theorem undefined_context_discards_params_witness:
  "[JStr ''alice'', JObject [''requestId'' \<mapsto> JNum ''7''], JUndefined] \<noteq> [] \<and>
   last [JStr ''alice'', JObject [''requestId'' \<mapsto> JNum ''7''], JUndefined] = JUndefined \<and>
   Logger_call isPlainObject ''context'' Info (JStr ''%s logs in'')
     [JStr ''alice'', JObject [''requestId'' \<mapsto> JNum ''7''], JUndefined] =
     [JObject Map.empty, JStr ''%s logs in'']"
proof -
  have h1: "[JStr ''alice'', JObject [''requestId'' \<mapsto> JNum ''7''], JUndefined] \<noteq> []" by simp
  have h2: "last [JStr ''alice'', JObject [''requestId'' \<mapsto> JNum ''7''], JUndefined] = JUndefined"
    by simp
  have e: "Logger_call isPlainObject ''context'' Info (JStr ''%s logs in'') [] =
      [JObject Map.empty, JStr ''%s logs in'']"
    by (simp add: Logger_call_def mergingObject_def optionalParamsWithoutContext_def
        contextObject_def interpolationValues_def mergesLast_def
        isWrongExceptionsHandlerContract_def)
  from undefined_context_discards_params
    [where isObject = isPlainObject, OF h1 h2, of "''context''" "JStr ''%s logs in''" Info] e
  show ?thesis by simp
qed

section \<open>Context-Resolving Facade\<close>

text \<open>
  Claim C6.  Without an active store \<open>assign\<close> throws and the state is as before.
  With an active store it succeeds: the store's logger becomes a new child whose
  bindings are the former logger's with the fields on top, and the store's response
  logger stays the same reference.  When a response logger is present, the fields
  are bound on that very object; no other logger object changes.  The method tests
  only the presence of the response logger, which is the case of the claim where
  one is present and propagation is enabled.
\<close>

theorem assign_fields:
  "(getStore w = None \<longrightarrow>
      assign fs w =
        (Inl (JError ''PinoLogger: unable to assign extra fields out of request scope'' []), w)) \<and>
   (getStore w = Some store \<longrightarrow>
      fst (assign fs w) = Inr () \<and>
      getStore (snd (assign fs w)) = Some (store\<lparr>logger := nextRef w\<rparr>) \<and>
      responseLogger (the (getStore (snd (assign fs w)))) = responseLogger store \<and>
      bindings (snd (assign fs w)) (nextRef w) = bindings w (logger store) ++ fs \<and>
      outOfContext (snd (assign fs w)) = outOfContext w \<and>
      (case responseLogger store of
         None \<Rightarrow> (\<forall>r. r \<noteq> nextRef w \<longrightarrow> bindings (snd (assign fs w)) r = bindings w r)
       | Some l \<Rightarrow>
           (l \<noteq> nextRef w \<longrightarrow> bindings (snd (assign fs w)) l = bindings w l ++ fs) \<and>
           (\<forall>k v. fs k = Some v \<longrightarrow> bindings (snd (assign fs w)) l k = Some v) \<and>
           (\<forall>r. r \<noteq> nextRef w \<and> r \<noteq> l \<longrightarrow>
                bindings (snd (assign fs w)) r = bindings w r)))"
  by (auto simp: assign_def child_def setBindings_def Let_def map_add_def split: option.splits)

text \<open>
  A request whose logger and response logger are the same object, as an HTTP
  middleware attaches them: the store gets the child 1, the response logger is
  still 0 and carries the field.
\<close>

theorem assign_fields_witness:
  "getStore (initialWorld\<lparr>nextRef := 1,
       getStore := Some \<lparr>logger = 0, responseLogger = Some 0\<rparr>\<rparr>) =
     Some \<lparr>logger = 0, responseLogger = Some 0\<rparr> \<and>
   getStore (snd (assign [''userId'' \<mapsto> JNum ''5'']
     (initialWorld\<lparr>nextRef := 1, getStore := Some \<lparr>logger = 0, responseLogger = Some 0\<rparr>\<rparr>))) =
     Some \<lparr>logger = 1, responseLogger = Some 0\<rparr> \<and>
   bindings (snd (assign [''userId'' \<mapsto> JNum ''5'']
     (initialWorld\<lparr>nextRef := 1, getStore := Some \<lparr>logger = 0, responseLogger = Some 0\<rparr>\<rparr>)))
     1 ''userId'' = Some (JNum ''5'') \<and>
   bindings (snd (assign [''userId'' \<mapsto> JNum ''5'']
     (initialWorld\<lparr>nextRef := 1, getStore := Some \<lparr>logger = 0, responseLogger = Some 0\<rparr>\<rparr>)))
     0 ''userId'' = Some (JNum ''5'') \<and>
   getStore initialWorld = None \<and>
   snd (assign [''userId'' \<mapsto> JNum ''5''] initialWorld) = initialWorld"
proof -
  have h: "getStore (initialWorld\<lparr>nextRef := 1,
       getStore := Some \<lparr>logger = 0, responseLogger = Some 0\<rparr>\<rparr>) =
     Some \<lparr>logger = 0, responseLogger = Some 0\<rparr>"
    by simp
  have n: "getStore initialWorld = None"
    by (simp add: initialWorld_def)
  from h n
    assign_fields [where fs = "[''userId'' \<mapsto> JNum ''5'']"
      and w = "initialWorld\<lparr>nextRef := 1,
                 getStore := Some \<lparr>logger = 0, responseLogger = Some 0\<rparr>\<rparr>"
      and store = "\<lparr>logger = 0, responseLogger = Some 0\<rparr>"]
    assign_fields [where fs = "[''userId'' \<mapsto> JNum ''5'']" and w = initialWorld]
  show ?thesis
    by (simp add: initialWorld_def)
qed

text \<open>
  Claim C7, as the code has it.  Let the label be non-empty.  When the first
  argument is an exception, the leading object passed on has the exception under the
  error field name, and the label under the context field name when the two names
  differ.  When the first argument is another value of type \<open>object\<close>, the leading
  object has the properties of that value and, for the context field name when the
  value has no such property, the label.  In every other case an object with the
  label alone is put before the arguments.
\<close>

theorem label_injection:
  assumes "context' this \<noteq> []"
  shows "(instanceofError e \<longrightarrow>
            labelledArgs this (e # rest) =
              JObject ([contextName this \<mapsto> JStr (context' this)](errorKey this \<mapsto> e)) # rest \<and>
            emittedFields (labelledArgs this (e # rest)) (errorKey this) = Some e \<and>
            (contextName this \<noteq> errorKey this \<longrightarrow>
               emittedFields (labelledArgs this (e # rest)) (contextName this) =
                 Some (JStr (context' this)))) \<and>
         (typeof a = TObject \<and> \<not> instanceofError a \<longrightarrow>
            labelledArgs this (a # rest) =
              JObject ([contextName this \<mapsto> JStr (context' this)] ++ ownEnumerable a) # rest \<and>
            (\<forall>k. emittedFields (labelledArgs this (a # rest)) k =
                   (case ownEnumerable a k of
                      Some v \<Rightarrow> Some v
                    | None \<Rightarrow>
                        if k = contextName this then Some (JStr (context' this)) else None))) \<and>
         (\<not> isFirstArgObject args \<longrightarrow>
            labelledArgs this args = JObject [contextName this \<mapsto> JStr (context' this)] # args)"
  using assms
  by (cases e)
     (auto simp: labelledArgs_def isFirstArgObject_def index_js_def emittedFields_def
        Object_assign_def Let_def map_add_def split: option.splits)

theorem label_injection_witness:
  "context' \<lparr>context' = ''UserService'', contextName = ''context'', errorKey = ''err''\<rparr> \<noteq> [] \<and>
   labelledArgs \<lparr>context' = ''UserService'', contextName = ''context'', errorKey = ''err''\<rparr>
     [JError ''boom'' ''trace'', JStr ''failed''] =
     [JObject [''context'' \<mapsto> JStr ''UserService'', ''err'' \<mapsto> JError ''boom'' ''trace''],
      JStr ''failed''] \<and>
   labelledArgs \<lparr>context' = ''UserService'', contextName = ''context'', errorKey = ''err''\<rparr>
     [JStr ''started''] =
     [JObject [''context'' \<mapsto> JStr ''UserService''], JStr ''started'']"
proof -
  have h: "context' \<lparr>context' = ''UserService'', contextName = ''context'', errorKey = ''err''\<rparr>
      \<noteq> []"
    by simp
  have e: "instanceofError (JError ''boom'' ''trace'')" by simp
  have f: "\<not> isFirstArgObject [JStr ''started'']"
    by (simp add: isFirstArgObject_def index_js_def)
  from label_injection [OF h, where e = "JError ''boom'' ''trace''" and rest = "[JStr ''failed'']"
      and args = "[JStr ''started'']"] h e f
  show ?thesis by simp
qed

text \<open>
  With the context field renamed to \<open>err\<close>, the name of the error field, the
  leading object has one property, the exception: the label is not in it.
\<close>

theorem label_injection_counterexample:
  "context' (setContext ''Svc'' (fst (PinoLogger_new
      \<lparr>pinoHttp = None, renameContext = Some ''err'', useExisting = False, assignResponse = False\<rparr>
      initialWorld))) \<noteq> [] \<and>
   instanceofError (JError ''boom'' ''trace'') \<and>
   emittedFields (labelledArgs (setContext ''Svc'' (fst (PinoLogger_new
      \<lparr>pinoHttp = None, renameContext = Some ''err'', useExisting = False, assignResponse = False\<rparr>
      initialWorld))) [JError ''boom'' ''trace''])
     (contextName (setContext ''Svc'' (fst (PinoLogger_new
      \<lparr>pinoHttp = None, renameContext = Some ''err'', useExisting = False, assignResponse = False\<rparr>
      initialWorld)))) \<noteq> Some (JStr ''Svc'')"
  by (simp add: setContext_def PinoLogger_new_def contextNameOf_def errorKeyOf_def
      labelledArgs_def isFirstArgObject_def index_js_def emittedFields_def Object_assign_def)

text \<open>
  Claim C8.  The constructor takes the value of a \<open>logger\<close> property as the
  fallback without testing it.  When the options have the property with the value
  \<open>undefined\<close>, the fallback is still \<open>undefined\<close> after the construction, the
  getter yields \<open>undefined\<close>, and a call outside every request fails with a
  \<open>TypeError\<close>, directly and through \<open>Logger\<close>.
\<close>

theorem fallback_undefined_after_construction:
  "getStore initialWorld = None \<and>
   outOfContext (snd (PinoLogger_new
      \<lparr>pinoHttp = Some (PinoHttpOptions
         \<lparr>customAttributeKeys = None, passedLogger = Some None, stream = False\<rparr>),
       renameContext = None, useExisting = False, assignResponse = False\<rparr> initialWorld)) = None \<and>
   PinoLogger_call
     (fst (PinoLogger_new
        \<lparr>pinoHttp = Some (PinoHttpOptions
           \<lparr>customAttributeKeys = None, passedLogger = Some None, stream = False\<rparr>),
         renameContext = None, useExisting = False, assignResponse = False\<rparr> initialWorld))
     Info [JStr ''ready'']
     (snd (PinoLogger_new
        \<lparr>pinoHttp = Some (PinoHttpOptions
           \<lparr>customAttributeKeys = None, passedLogger = Some None, stream = False\<rparr>),
         renameContext = None, useExisting = False, assignResponse = False\<rparr> initialWorld)) =
     Inl TypeError \<and>
   Logger_emit isPlainObject
     (fst (PinoLogger_new
        \<lparr>pinoHttp = Some (PinoHttpOptions
           \<lparr>customAttributeKeys = None, passedLogger = Some None, stream = False\<rparr>),
         renameContext = None, useExisting = False, assignResponse = False\<rparr> initialWorld))
     ''context'' Info (JStr ''ready'') []
     (snd (PinoLogger_new
        \<lparr>pinoHttp = Some (PinoHttpOptions
           \<lparr>customAttributeKeys = None, passedLogger = Some None, stream = False\<rparr>),
         renameContext = None, useExisting = False, assignResponse = False\<rparr> initialWorld)) =
     Inl TypeError"
  by (simp add: PinoLogger_new_def initOutOfContext_def initialWorld_def PinoLogger_call_def
      PinoLogger_logger_def Logger_emit_def)

section \<open>Named-Logger Registry\<close>

text \<open>
  Claim C9.  From the empty registry, after any sequence of registrations in which
  the label \<open>L\<close> occurs at least once, the registry has no repetition and has \<open>L\<close>
  exactly once, the providers built from it include exactly one whose token is the
  token of \<open>L\<close>, and one more registration of \<open>L\<close> leaves the registry as it is.
\<close>

theorem registration_idempotent:
  assumes "1 \<le> count_list cs L"
  shows "distinct (registerAll cs []) \<and>
         count_list (registerAll cs []) L = 1 \<and>
         length (filter (\<lambda>p. provide p = getLoggerToken L)
                   (createProvidersForDecorated (registerAll cs []))) = 1 \<and>
         snd (InjectPinoLogger L (registerAll cs [])) = registerAll cs []"
proof -
  from assms have "L \<in> set cs"
    by (metis count_list_0_iff not_one_le_zero)
  then have mem: "L \<in> set (registerAll cs [])"
    by (simp add: set_registerAll)
  have d: "distinct (registerAll cs [])"
    by (simp add: distinct_registerAll)
  from count_list_distinct [OF d mem] mem d show ?thesis
    by (simp add: providers_count InjectPinoLogger_def Set_add_def)
qed

theorem registration_idempotent_witness:
  "1 \<le> count_list [''UserService'', ''AuthService'', ''UserService'', ''UserService'']
          ''UserService'' \<and>
   registerAll [''UserService'', ''AuthService'', ''UserService'', ''UserService''] [] =
     [''UserService'', ''AuthService''] \<and>
   length (filter (\<lambda>p. provide p = getLoggerToken ''UserService'')
     (createProvidersForDecorated
        (registerAll [''UserService'', ''AuthService'', ''UserService'', ''UserService''] []))) = 1"
proof -
  have h: "1 \<le> count_list [''UserService'', ''AuthService'', ''UserService'', ''UserService'']
          ''UserService''"
    by simp
  have r: "registerAll [''UserService'', ''AuthService'', ''UserService'', ''UserService''] [] =
     [''UserService'', ''AuthService'']"
    by (simp add: InjectPinoLogger_def Set_add_def)
  from registration_idempotent [OF h] h r show ?thesis
    by blast
qed

end
